theory Spec2Isabelle
  imports Main
begin

section \<open>Values and effects shared by the renderer modules\<close>

text \<open>
  The renderer modules keep their state in module-level variables and talk to the
  outside through \<^verbatim>\<open>ipcRenderer.send\<close>, through callbacks and through functions
  hung on \<^verbatim>\<open>window\<close>. Each source function becomes a HOL function from the
  module state to the new state and the list of effects it performed, in program order.

  A JavaScript value that the code tests with \<^verbatim>\<open>===\<close> or for truthiness is a
  \<open>jsval\<close>: \<^verbatim>\<open>undefined\<close>, \<^verbatim>\<open>null\<close> or a string. On these values \<^verbatim>\<open>===\<close> is
  HOL equality, and a value is truthy iff it is a non-empty string.
\<close>

datatype jsval = Undefined | Null | Str string

fun truthy :: "jsval \<Rightarrow> bool" where
  "truthy Undefined = False"
| "truthy Null = False"
| "truthy (Str s) = (s \<noteq> [])"

text \<open>Template-literal interpolation \<^verbatim>\<open>`${v}`\<close>.\<close>

fun toString :: "jsval \<Rightarrow> string" where
  "toString Undefined = ''undefined''"
| "toString Null = ''null''"
| "toString (Str s) = s"

text \<open>
  Text that the user types into a form is a JavaScript string: a list of UTF-16 code
  units, each a number below 65536. \<open>codeUnits\<close> gives the code units of an ASCII
  literal.
\<close>

type_synonym utf16 = "nat list"

definition codeUnits :: "string \<Rightarrow> utf16" where
  "codeUnits s = map of_char s"

text \<open>The four fields of the task form, as \<^verbatim>\<open>handleTaskFormSubmit\<close> collects them.\<close>

record taskData =
  td_title :: utf16
  td_description :: utf16
  td_priority :: string
  td_category :: string

text \<open>The \<^verbatim>\<open>updates\<close> object of an \<^verbatim>\<open>UPDATE_TASK\<close> message.\<close>

datatype updates = StatusUpdate string | FieldsUpdate taskData

text \<open>Messages sent with \<^verbatim>\<open>ipcRenderer.send(channel, payload)\<close>.\<close>

datatype ipc_msg =
    CHECK_IS_FRAME_PROJECT jsval
  | READ_FILE string
  | WRITE_FILE jsval string
  | LOAD_TASKS jsval
  | ADD_TASK jsval taskData
  | UPDATE_TASK jsval string updates
  | DELETE_TASK jsval string

text \<open>
  Everything a function does besides changing its module's variables. A registered
  callback is opaque to the module that calls it, so it is named by a number and the
  call is recorded with its arguments; a callback that calls back into a module is a
  further call of that module's function. Changes of style classes (the highlight of
  the focused item, the folder arrows) are not recorded.
\<close>

datatype effect =
    IpcSend ipc_msg
  | UpdateProjectUI
  | UpdateFrameUI
  | SetCurrentProject jsval
  | ProjectChangeCb nat jsval jsval
  | FrameStatusCb nat bool
  | FrameInitializedCb nat jsval
  | UpdateStatus string string
  | FileTreeRefreshCb
  | ConsoleError string
  | DomFocus nat
  | TextareaFocus
  | DetachedClick nat
  | Confirm string
  | TerminalFocus
  | TerminalSendCommand string
  | FileClickCb string string
  | Render
  | Toast string string
  | Alert string
  | HideTaskModal

text \<open>
  The functions other modules may have installed on \<^verbatim>\<open>window\<close>; the code tests
  each with \<^verbatim>\<open>typeof ... === 'function'\<close> before calling it.
\<close>

record window =
  fileTreeFocus :: bool
  terminalFocus :: bool
  terminalSendCommand :: bool

section \<open>Application state module (state.js)\<close>

record project_state =
  currentProjectPath :: jsval
  isCurrentProjectFrame :: bool
  onProjectChangeCallbacks :: "nat list"
  onFrameStatusChangeCallbacks :: "nat list"
  onFrameInitializedCallbacks :: "nat list"
  multiTerminalUI :: bool

text \<open>The module-level initialisers.\<close>

definition initial_project_state :: project_state where
  "initial_project_state =
     \<lparr>currentProjectPath = Null, isCurrentProjectFrame = False,
      onProjectChangeCallbacks = [], onFrameStatusChangeCallbacks = [],
      onFrameInitializedCallbacks = [], multiTerminalUI = False\<rparr>"

definition getProjectPath :: "project_state \<Rightarrow> jsval" where
  "getProjectPath s = currentProjectPath s"

definition setMultiTerminalUI :: "bool \<Rightarrow> project_state \<Rightarrow> project_state" where
  "setMultiTerminalUI ui s = s\<lparr>multiTerminalUI := ui\<rparr>"

definition onProjectChange :: "nat \<Rightarrow> project_state \<Rightarrow> project_state" where
  "onProjectChange cb s = s\<lparr>onProjectChangeCallbacks := onProjectChangeCallbacks s @ [cb]\<rparr>"

definition onFrameStatusChange :: "nat \<Rightarrow> project_state \<Rightarrow> project_state" where
  "onFrameStatusChange cb s =
     s\<lparr>onFrameStatusChangeCallbacks := onFrameStatusChangeCallbacks s @ [cb]\<rparr>"

definition onFrameInitialized :: "nat \<Rightarrow> project_state \<Rightarrow> project_state" where
  "onFrameInitialized cb s =
     s\<lparr>onFrameInitializedCallbacks := onFrameInitializedCallbacks s @ [cb]\<rparr>"

definition setIsFrameProject :: "bool \<Rightarrow> project_state \<Rightarrow> project_state \<times> effect list" where
  "setIsFrameProject isFrame s =
     (s\<lparr>isCurrentProjectFrame := isFrame\<rparr>,
      UpdateFrameUI # map (\<lambda>cb. FrameStatusCb cb isFrame) (onFrameStatusChangeCallbacks s))"

definition setProjectPath :: "jsval \<Rightarrow> project_state \<Rightarrow> project_state \<times> effect list" where
  "setProjectPath path s =
     (let previousPath = currentProjectPath s;
          s1 = s\<lparr>currentProjectPath := path\<rparr>;
          switch = (if multiTerminalUI s1 then [SetCurrentProject path] else []);
          (s2, check) = (if truthy path then (s1, [IpcSend (CHECK_IS_FRAME_PROJECT path)])
                         else setIsFrameProject False s1)
      in (s2, UpdateProjectUI # switch @ check
              @ map (\<lambda>cb. ProjectChangeCb cb path previousPath) (onProjectChangeCallbacks s2)))"

text \<open>The three listeners installed by \<^verbatim>\<open>setupIPC\<close>.\<close>

definition on_PROJECT_SELECTED :: "jsval \<Rightarrow> project_state \<Rightarrow> project_state \<times> effect list" where
  "on_PROJECT_SELECTED projectPath s = setProjectPath projectPath s"

definition on_IS_FRAME_PROJECT_RESULT ::
    "jsval \<Rightarrow> bool \<Rightarrow> project_state \<Rightarrow> project_state \<times> effect list" where
  "on_IS_FRAME_PROJECT_RESULT projectPath isFrame s =
     (if projectPath = currentProjectPath s then setIsFrameProject isFrame s else (s, []))"

definition on_FRAME_PROJECT_INITIALIZED ::
    "jsval \<Rightarrow> bool \<Rightarrow> project_state \<Rightarrow> project_state \<times> effect list" where
  "on_FRAME_PROJECT_INITIALIZED projectPath success s =
     (if success \<and> projectPath = currentProjectPath s
      then (let (s1, es) = setIsFrameProject True s
            in (s1, es @ map (\<lambda>cb. FrameInitializedCb cb projectPath)
                          (onFrameInitializedCallbacks s1)))
      else (s, []))"

text \<open>Effects of one kind, picked out of a trace.\<close>

fun isFrameStatusCb :: "effect \<Rightarrow> bool" where
  "isFrameStatusCb (FrameStatusCb cb f) = True"
| "isFrameStatusCb e = False"

fun isSetCurrentProject :: "effect \<Rightarrow> bool" where
  "isSetCurrentProject (SetCurrentProject p) = True"
| "isSetCurrentProject e = False"

fun isProjectChangeCb :: "effect \<Rightarrow> bool" where
  "isProjectChangeCb (ProjectChangeCb cb p q) = True"
| "isProjectChangeCb e = False"

section \<open>File tree module (fileTreeUI)\<close>

text \<open>
  \<^verbatim>\<open>renderFileTree\<close> builds, for every entry, a wrapper holding a \<^verbatim>\<open>.file-item\<close>
  element and, for a directory with at least one child, a \<^verbatim>\<open>.folder-children\<close>
  container with the wrappers of the children. The model keeps what the navigation code
  reads from that DOM: the identity of each item element (a number, distinct for
  distinct elements), its path, and for a folder whether its container is shown
  (\<^verbatim>\<open>style.display\<close> is not \<^verbatim>\<open>'none'\<close>). A folder with no children has no container.
\<close>

datatype file_node =
    FileItem nat string
  | FolderItem nat string bool "file_node list"

datatype key = ArrowDown | ArrowUp | ArrowRight | ArrowLeft | Enter | Escape | OtherKey

record tree_state =
  fileTreeElement :: "file_node list option"
  onFileClickCallback :: bool
  focusedItem :: "nat option"
  keyboardSetup :: bool

text \<open>
  \<^verbatim>\<open>querySelectorAll('.file-item')\<close> below one wrapper, in document order. Each item
  comes with the display flags of the \<^verbatim>\<open>.folder-children\<close> containers around it,
  innermost first: what the \<^verbatim>\<open>while (parent ...)\<close> loop of \<^verbatim>\<open>getVisibleItems\<close>
  walks through.
\<close>

fun fileItems :: "bool list \<Rightarrow> file_node \<Rightarrow> (nat \<times> bool list) list" where
  "fileItems anc (FileItem i p) = [(i, anc)]"
| "fileItems anc (FolderItem i p shown cs) =
     (i, anc) # concat (map (fileItems (shown # anc)) cs)"

definition allItems :: "file_node list \<Rightarrow> (nat \<times> bool list) list" where
  "allItems root = concat (map (fileItems []) root)"

text \<open>The filter of \<^verbatim>\<open>getVisibleItems\<close>: no container around the item is hidden.\<close>

definition parentsExpanded :: "nat \<times> bool list \<Rightarrow> bool" where
  "parentsExpanded item = list_all (\<lambda>shown. shown) (snd item)"

definition getVisibleItems :: "tree_state \<Rightarrow> nat list" where
  "getVisibleItems t =
     (case fileTreeElement t of
        None \<Rightarrow> []
      | Some root \<Rightarrow> map fst (filter parentsExpanded (allItems root)))"

text \<open>\<^verbatim>\<open>fileTreeElement.contains(item)\<close> for an item element.\<close>

definition contains :: "file_node list \<Rightarrow> nat \<Rightarrow> bool" where
  "contains root item = (item \<in> set (map fst (allItems root)))"

definition focus :: "tree_state \<Rightarrow> tree_state \<times> effect list" where
  "focus t =
     (case fileTreeElement t of
        None \<Rightarrow> (t, [])
      | Some root \<Rightarrow>
          (case getVisibleItems t of
             [] \<Rightarrow> (t, [])
           | first # rest \<Rightarrow>
               (let targetItem =
                      (case focusedItem t of
                         None \<Rightarrow> first
                       | Some f \<Rightarrow> if contains root f then f else first)
                in (t\<lparr>focusedItem := Some targetItem, keyboardSetup := True\<rparr>,
                    [DomFocus targetItem]))))"

definition blur :: "tree_state \<Rightarrow> tree_state" where
  "blur t = t\<lparr>focusedItem := None\<rparr>"

text \<open>\<^verbatim>\<open>Array.prototype.indexOf\<close> and an index read that is \<^verbatim>\<open>undefined\<close> out of range.\<close>

fun indexOf :: "'a list \<Rightarrow> 'a \<Rightarrow> int" where
  "indexOf [] x = - 1"
| "indexOf (y # ys) x =
     (if y = x then 0 else (let r = indexOf ys x in if r < 0 then - 1 else r + 1))"

definition itemAt :: "'a list \<Rightarrow> int \<Rightarrow> 'a option" where
  "itemAt xs i = (if 0 \<le> i \<and> i < int (length xs) then Some (xs ! nat i) else None)"

text \<open>Looking an item element up in the live tree, and changing one folder's container.\<close>

fun findItem :: "nat \<Rightarrow> file_node \<Rightarrow> file_node option"
  and findItemList :: "nat \<Rightarrow> file_node list \<Rightarrow> file_node option" where
  "findItem n (FileItem i p) = (if i = n then Some (FileItem i p) else None)"
| "findItem n (FolderItem i p shown cs) =
     (if i = n then Some (FolderItem i p shown cs) else findItemList n cs)"
| "findItemList n [] = None"
| "findItemList n (x # xs) =
     (case findItem n x of Some r \<Rightarrow> Some r | None \<Rightarrow> findItemList n xs)"

fun setDisplay :: "nat \<Rightarrow> (bool \<Rightarrow> bool) \<Rightarrow> file_node \<Rightarrow> file_node" where
  "setDisplay n f (FileItem i p) = FileItem i p"
| "setDisplay n f (FolderItem i p shown cs) =
     (if i = n then FolderItem i p (if cs = [] then shown else f shown) cs
      else FolderItem i p shown (map (setDisplay n f) cs))"

definition updateTree :: "(file_node \<Rightarrow> file_node) \<Rightarrow> tree_state \<Rightarrow> tree_state" where
  "updateTree g t =
     (case fileTreeElement t of
        None \<Rightarrow> t
      | Some root \<Rightarrow> t\<lparr>fileTreeElement := Some (map g root)\<rparr>)"

text \<open>
  The click listeners that \<^verbatim>\<open>renderFileTree\<close> attaches: a folder with children toggles
  its container, a file reports its path to the file-click callback, a folder without
  children has no listener. A click on an element that is no longer in the tree runs
  that element's listener outside the live tree and is only recorded.
\<close>

definition click :: "nat \<Rightarrow> tree_state \<Rightarrow> tree_state \<times> effect list" where
  "click item t =
     (case fileTreeElement t of
        None \<Rightarrow> (t, [DetachedClick item])
      | Some root \<Rightarrow>
          (case findItemList item root of
             None \<Rightarrow> (t, [DetachedClick item])
           | Some (FileItem i p) \<Rightarrow>
               (t, if onFileClickCallback t then [FileClickCb p ''fileTree''] else [])
           | Some (FolderItem i p shown cs) \<Rightarrow> (updateTree (setDisplay item Not) t, [])))"

definition isFolder :: "tree_state \<Rightarrow> bool" where
  "isFolder t =
     (case (fileTreeElement t, focusedItem t) of
        (Some root, Some f) \<Rightarrow>
          (case findItemList f root of Some (FolderItem i p shown cs) \<Rightarrow> True | _ \<Rightarrow> False)
      | _ \<Rightarrow> False)"

definition handleKeydown :: "window \<Rightarrow> key \<Rightarrow> tree_state \<Rightarrow> tree_state \<times> effect list" where
  "handleKeydown w k t =
     (let items = getVisibleItems t;
          currentIndex = (case focusedItem t of None \<Rightarrow> - 1 | Some f \<Rightarrow> indexOf items f)
      in if k = ArrowDown \<or> k = ArrowUp then
           (let newIndex =
                  (if k = ArrowDown
                   then (if currentIndex < int (length items) - 1 then currentIndex + 1 else 0)
                   else (if currentIndex > 0 then currentIndex - 1 else int (length items) - 1))
            in (t\<lparr>focusedItem := itemAt items newIndex\<rparr>,
                (case itemAt items newIndex of None \<Rightarrow> [] | Some f \<Rightarrow> [DomFocus f])))
         else if k = ArrowRight \<and> isFolder t then
           (updateTree (setDisplay (the (focusedItem t)) (\<lambda>shown. True)) t, [])
         else if k = ArrowLeft \<and> isFolder t then
           (updateTree (setDisplay (the (focusedItem t)) (\<lambda>shown. False)) t, [])
         else if k = Enter then
           (case focusedItem t of None \<Rightarrow> (t, []) | Some f \<Rightarrow> click f t)
         else if k = Escape then
           (t, if terminalFocus w then [TerminalFocus] else [])
         else (t, []))"

text \<open>What can happen to the tree between two renderings: a key or a mouse click.\<close>

datatype tree_event = Keydown key | Click nat

fun tree_step :: "window \<Rightarrow> tree_event \<Rightarrow> tree_state \<Rightarrow> tree_state" where
  "tree_step w (Keydown k) t = fst (handleKeydown w k t)"
| "tree_step w (Click item) t = fst (click item t)"

fun tree_run :: "window \<Rightarrow> tree_event list \<Rightarrow> tree_state \<Rightarrow> tree_state" where
  "tree_run w [] t = t"
| "tree_run w (e # es) t = tree_run w es (tree_step w e t)"

text \<open>The item elements of the tree, without the container flags.\<close>

fun nodeIds :: "file_node \<Rightarrow> nat list" where
  "nodeIds (FileItem i p) = [i]"
| "nodeIds (FolderItem i p shown cs) = i # concat (map nodeIds cs)"

definition itemIds :: "tree_state \<Rightarrow> nat list" where
  "itemIds t =
     (case fileTreeElement t of None \<Rightarrow> [] | Some root \<Rightarrow> concat (map nodeIds root))"

text \<open>
  Visibility as the data model states it, by descent through the tree and without the
  navigation code's filter: the items of a subtree are its own item and, when it is an
  expanded folder, the visible items of its children; a collapsed folder shows nothing
  below itself.
\<close>

fun expandedBelow :: "file_node \<Rightarrow> nat list" where
  "expandedBelow (FileItem i p) = [i]"
| "expandedBelow (FolderItem i p shown cs) =
     i # (if shown then concat (map expandedBelow cs) else [])"

definition expandedItems :: "tree_state \<Rightarrow> nat list" where
  "expandedItems t =
     (case fileTreeElement t of None \<Rightarrow> [] | Some root \<Rightarrow> concat (map expandedBelow root))"

text \<open>
  An item has a collapsed ancestor when it occurs strictly below some folder of the tree
  that is collapsed.
\<close>

fun occursIn :: "nat \<Rightarrow> file_node \<Rightarrow> bool" where
  "occursIn item (FileItem i p) = (i = item)"
| "occursIn item (FolderItem i p shown cs) = (i = item \<or> list_ex (occursIn item) cs)"

fun belowCollapsed :: "nat \<Rightarrow> file_node \<Rightarrow> bool" where
  "belowCollapsed item (FileItem i p) = False"
| "belowCollapsed item (FolderItem i p shown cs) =
     (if shown then list_ex (belowCollapsed item) cs else list_ex (occursIn item) cs)"

definition ancestorCollapsed :: "tree_state \<Rightarrow> nat \<Rightarrow> bool" where
  "ancestorCollapsed t item =
     (case fileTreeElement t of
        None \<Rightarrow> False
      | Some root \<Rightarrow> list_ex (belowCollapsed item) root)"

section \<open>File editor module (editor)\<close>

text \<open>
  The module variables, and the two DOM facts the code reads back: the text that
  \<^verbatim>\<open>editorTextarea.value\<close> returns and whether the overlay carries the class
  \<^verbatim>\<open>visible\<close>. A textarea gives its value back with the line breaks normalised: each
  CR LF pair and each remaining CR has become LF. So an assignment to
  \<^verbatim>\<open>editorTextarea.value\<close> stores the normalised text.
\<close>

fun normalizeNewlines :: "string \<Rightarrow> string" where
  "normalizeNewlines [] = []"
| "normalizeNewlines [c] = (if c = CHR 0x0D then [CHR 0x0A] else [c])"
| "normalizeNewlines (c # d # cs) =
     (if c = CHR 0x0D
      then (if d = CHR 0x0A then CHR 0x0A # normalizeNewlines cs
            else CHR 0x0A # normalizeNewlines (d # cs))
      else c # normalizeNewlines (d # cs))"

record editor_state =
  currentEditingFile :: jsval
  originalContent :: string
  isModified :: bool
  onFileTreeRefreshCallback :: bool
  openedFromSource :: jsval
  editorTextarea :: string
  editorOverlay :: bool



text \<open>
  \<^verbatim>\<open>closeEditor\<close> asks \<^verbatim>\<open>confirm(...)\<close> when the buffer is modified; \<open>answer\<close> is what
  the user replies. It calls the file tree's \<^verbatim>\<open>focus\<close> through \<^verbatim>\<open>window.fileTreeFocus\<close>,
  so it runs on the editor state and the file tree state together.
\<close>

definition closeEditor ::
    "window \<Rightarrow> bool \<Rightarrow> editor_state \<times> tree_state \<Rightarrow> (editor_state \<times> tree_state) \<times> effect list" where
  "closeEditor w answer st =
     (let s = fst st; t = snd st;
          asked = (if isModified s then [Confirm ''You have unsaved changes. Close anyway?''] else [])
      in if isModified s \<and> \<not> answer then ((s, t), asked)
         else
           (let (t1, restored) =
                  (if openedFromSource s = Str ''fileTree'' \<and> fileTreeFocus w then focus t
                   else if terminalFocus w then (t, [TerminalFocus])
                   else (t, []))
            in ((s\<lparr>editorOverlay := False, currentEditingFile := Null, originalContent := [],
                    isModified := False, openedFromSource := Null\<rparr>, t1),
                asked @ restored)))"

definition saveFile :: "editor_state \<Rightarrow> editor_state \<times> effect list" where
  "saveFile s =
     (if \<not> truthy (currentEditingFile s) then (s, [])
      else (s, [IpcSend (WRITE_FILE (currentEditingFile s) (editorTextarea s))]))"

definition updateStatus :: "string \<Rightarrow> string \<Rightarrow> effect list" where
  "updateStatus status className = [UpdateStatus status className]"

definition checkModified :: "editor_state \<Rightarrow> editor_state \<times> effect list" where
  "checkModified s =
     (let content = editorTextarea s;
          s1 = s\<lparr>isModified := (content \<noteq> originalContent s)\<rparr>
      in (s1, if isModified s1 then updateStatus ''Modified'' ''modified''
              else updateStatus ''Ready'' []))"

text \<open>
  The \<^verbatim>\<open>input\<close> listener: after an edit by the user (typing, paste, cut, undo) the
  textarea reports the value \<open>content\<close>, and \<^verbatim>\<open>checkModified\<close> runs.
\<close>

definition input :: "string \<Rightarrow> editor_state \<Rightarrow> editor_state \<times> effect list" where
  "input content s = checkModified (s\<lparr>editorTextarea := content\<rparr>)"



definition on_FILE_SAVED :: "bool \<Rightarrow> string \<Rightarrow> editor_state \<Rightarrow> editor_state \<times> effect list" where
  "on_FILE_SAVED success error s =
     (if success
      then (s\<lparr>originalContent := editorTextarea s, isModified := False\<rparr>,
            updateStatus ''Saved!'' ''saved''
            @ (if onFileTreeRefreshCallback s then [FileTreeRefreshCb] else []))
      else (s, updateStatus (''Save failed: '' @ error) ''modified''))"

text \<open>
  Everything that can happen to the editor: a file-open request, the two responses, a
  buffer edit, the save button or shortcut, and a close request (close button, Escape,
  click on the overlay) with the user's answer to the confirmation.
\<close>

datatype editor_event =
    OpenFile string jsval
  | FileContent bool string string string
  | Input string
  | TabKey nat nat
  | Save
  | FileSaved bool string
  | Close bool




definition getCurrentFile :: "editor_state \<Rightarrow> jsval" where
  "getCurrentFile s = currentEditingFile s"





section \<open>Tasks panel module (tasksPanel)\<close>

record task =
  task_id :: string
  task_title :: string
  task_description :: jsval
  task_priority :: jsval
  task_status :: jsval

text \<open>
  The pushed \<^verbatim>\<open>tasks\<close> object is the task file of a project; the panel reads its
  \<^verbatim>\<open>tasks.pending\<close>, \<^verbatim>\<open>tasks.inProgress\<close> and \<^verbatim>\<open>tasks.completed\<close> lists.
\<close>

record buckets =
  pending :: "task list"
  inProgress :: "task list"
  completed :: "task list"

record tasks_file =
  tasks :: "buckets option"

record tasks_state =
  isVisible :: bool
  currentFilter :: string
  tasksData :: "tasks_file option"
  claudeCodeRunning :: bool

definition initial_tasks_state :: tasks_state where
  "initial_tasks_state =
     \<lparr>isVisible = False, currentFilter = ''all'', tasksData = None, claudeCodeRunning = False\<rparr>"

text \<open>
  The \<^verbatim>\<open>TASKS_DATA\<close> listener takes \<^verbatim>\<open>{ projectPath, tasks }\<close> and tests \<^verbatim>\<open>tasks\<close>
  only; \<open>None\<close> is a missing or null \<^verbatim>\<open>tasks\<close>. It reads the project state nowhere;
  the argument is there so that a property can speak of the active path.
\<close>

definition on_TASKS_DATA ::
    "project_state \<Rightarrow> jsval \<Rightarrow> tasks_file option \<Rightarrow> tasks_state \<Rightarrow> tasks_state \<times> effect list" where
  "on_TASKS_DATA ps projectPath pushed s =
     (case pushed of
        None \<Rightarrow> (s, [])
      | Some d \<Rightarrow> (s\<lparr>tasksData := Some d\<rparr>, [Render]))"

definition loadTasks :: "project_state \<Rightarrow> effect list" where
  "loadTasks ps =
     (let projectPath = getProjectPath ps
      in if truthy projectPath then [IpcSend (LOAD_TASKS projectPath)] else [])"

definition statusMap :: "string \<Rightarrow> jsval" where
  "statusMap f =
     (if f = ''pending'' then Str ''pending''
      else if f = ''inProgress'' then Str ''in_progress''
      else if f = ''completed'' then Str ''completed''
      else Undefined)"

definition getFilteredTasks :: "tasks_state \<Rightarrow> task list" where
  "getFilteredTasks s =
     (case tasksData s of
        None \<Rightarrow> []
      | Some d \<Rightarrow>
          (case tasks d of
             None \<Rightarrow> []
           | Some b \<Rightarrow>
               (let allTasks =
                      map (\<lambda>t. t\<lparr>task_status := Str ''pending''\<rparr>) (pending b)
                      @ map (\<lambda>t. t\<lparr>task_status := Str ''in_progress''\<rparr>) (inProgress b)
                      @ map (\<lambda>t. t\<lparr>task_status := Str ''completed''\<rparr>) (completed b)
                in if currentFilter s = ''all'' then allTasks
                   else filter (\<lambda>t. task_status t = statusMap (currentFilter s)) allTasks)))"

definition sendTaskToClaude :: "window \<Rightarrow> task \<Rightarrow> effect list" where
  "sendTaskToClaude w t =
     (let prompt = ''Work on this task: '' @ task_title t;
          prompt = (if truthy (task_description t)
                    then prompt @ ''. '' @ toString (task_description t) else prompt);
          prompt = (if task_priority t = Str ''high''
                    then prompt @ '' (High priority)'' else prompt)
      in if terminalSendCommand w then [TerminalSendCommand prompt]
         else [ConsoleError ''Terminal sendCommand not available''])"

definition deleteTask :: "project_state \<Rightarrow> bool \<Rightarrow> string \<Rightarrow> effect list" where
  "deleteTask ps answer taskId =
     (let projectPath = getProjectPath ps
      in if \<not> truthy projectPath then []
         else Confirm ''Delete this task?''
              # (if answer then [IpcSend (DELETE_TASK projectPath taskId)] else []))"

text \<open>
  \<^verbatim>\<open>handleTaskAction\<close>: each case of the \<^verbatim>\<open>switch\<close> in source order, each followed
  by the tail of the function (\<open>statusRequest\<close>: the update message and the toast, for
  the \<^verbatim>\<open>newStatus\<close> and \<^verbatim>\<open>toastMessage\<close> the case has set). \<open>answer\<close> is the user's
  reply to the confirmation that the delete case asks.
\<close>

definition statusRequest :: "jsval \<Rightarrow> string \<Rightarrow> string \<Rightarrow> string \<Rightarrow> string \<Rightarrow> effect list" where
  "statusRequest projectPath taskId action newStatus toastMessage =
     [IpcSend (UPDATE_TASK projectPath taskId (StatusUpdate newStatus)),
      Toast toastMessage (if action = ''complete'' then ''success'' else ''info'')]"

definition handleTaskAction ::
    "project_state \<Rightarrow> window \<Rightarrow> bool \<Rightarrow> string \<Rightarrow> string \<Rightarrow> tasks_state
       \<Rightarrow> tasks_state \<times> effect list" where
  "handleTaskAction ps w answer taskId action s =
     (let projectPath = getProjectPath ps
      in if \<not> truthy projectPath then (s, [])
         else
           (case find (\<lambda>t. task_id t = taskId) (getFilteredTasks s) of
              None \<Rightarrow> (s, [])
            | Some t \<Rightarrow>
                if action = ''start'' then
                  (s, sendTaskToClaude w t
                      @ statusRequest projectPath taskId action ''in_progress'' ''Task sent to Claude'')
                else if action = ''complete'' then
                  (s, statusRequest projectPath taskId action ''completed'' ''Task completed'')
                else if action = ''pause'' then
                  (s, statusRequest projectPath taskId action ''pending'' ''Task paused'')
                else if action = ''reopen'' then
                  (s, statusRequest projectPath taskId action ''pending'' ''Task reopened'')
                else if action = ''delete'' then (s, deleteTask ps answer taskId)
                else (s, [])))"

text \<open>
  \<^verbatim>\<open>String.prototype.trim\<close> removes white space and line terminators from both ends.
  White space is tab, vertical tab, form feed, space, no-break space (U+00A0), the byte
  order mark (U+FEFF) and every other space separator of Unicode (U+1680, U+2000 to
  U+200A, U+202F, U+205F, U+3000); the line terminators are line feed, carriage return,
  U+2028 and U+2029. All of them are single code units.
\<close>

definition isWhiteSpace :: "nat \<Rightarrow> bool" where
  "isWhiteSpace u =
     (u \<in> set [0x09, 0x0B, 0x0C, 0x20, 0xA0, 0xFEFF, 0x1680, 0x202F, 0x205F, 0x3000]
      \<or> (0x2000 \<le> u \<and> u \<le> 0x200A)
      \<or> u \<in> set [0x0A, 0x0D, 0x2028, 0x2029])"

definition trim :: "utf16 \<Rightarrow> utf16" where
  "trim v = rev (dropWhile isWhiteSpace (rev (dropWhile isWhiteSpace v)))"

text \<open>The task form at submit time: its \<^verbatim>\<open>dataset\<close> and the four inputs.\<close>

record task_form =
  form_mode :: jsval
  form_taskId :: string
  title_input :: utf16
  description_input :: utf16
  priority_input :: string
  category_input :: string

definition handleTaskFormSubmit ::
    "project_state \<Rightarrow> task_form \<Rightarrow> tasks_state \<Rightarrow> tasks_state \<times> effect list" where
  "handleTaskFormSubmit ps form s =
     (let mode = form_mode form;
          taskId = form_taskId form;
          projectPath = getProjectPath ps
      in if \<not> truthy projectPath then (s, [])
         else
           (let data = \<lparr>td_title = trim (title_input form),
                        td_description = trim (description_input form),
                        td_priority = priority_input form,
                        td_category = category_input form\<rparr>
            in if td_title data = [] then (s, [Alert ''Task title is required''])
               else if mode = Str ''add'' then
                 (s, [IpcSend (ADD_TASK projectPath data), HideTaskModal])
               else if mode = Str ''edit'' \<and> taskId \<noteq> [] then
                 (s, [IpcSend (UPDATE_TASK projectPath taskId (FieldsUpdate data)), HideTaskModal])
               else (s, [HideTaskModal])))"

fun isIpcSend :: "effect \<Rightarrow> bool" where
  "isIpcSend (IpcSend m) = True"
| "isIpcSend e = False"

section \<open>Example states\<close>

text \<open>A project context with a terminal and two listeners of each kind, on project /a.\<close>

definition example_project :: project_state where
  "example_project =
     \<lparr>currentProjectPath = Str ''/a'', isCurrentProjectFrame = True,
      onProjectChangeCallbacks = [1, 2], onFrameStatusChangeCallbacks = [3, 4],
      onFrameInitializedCallbacks = [], multiTerminalUI = True\<rparr>"

definition example_window :: window where
  "example_window = \<lparr>fileTreeFocus = True, terminalFocus = True, terminalSendCommand = True\<rparr>"

text \<open>
  A rendered tree: folder src (expanded) with x.js and the collapsed folder lib holding
  y.js, then README.md; the cursor is on x.js.
\<close>

definition example_tree :: tree_state where
  "example_tree =
     \<lparr>fileTreeElement =
        Some [FolderItem 1 ''/a/src'' True
                [FileItem 2 ''/a/src/x.js'',
                 FolderItem 3 ''/a/src/lib'' False [FileItem 4 ''/a/src/lib/y.js'']],
              FileItem 5 ''/a/README.md''],
      onFileClickCallback = True, focusedItem = Some 2, keyboardSetup = True\<rparr>"

text \<open>Expand lib with a click, move the cursor down onto lib, collapse lib with a click.\<close>

definition example_history :: "tree_event list" where
  "example_history = [Click 3, Keydown ArrowDown, Click 3]"

text \<open>An editor opened from the file tree on x.js, with an unsaved edit.\<close>

definition example_editor :: editor_state where
  "example_editor =
     \<lparr>currentEditingFile = Str ''/a/x.js'', originalContent = ''let x'', isModified = True,
      onFileTreeRefreshCallback = True, openedFromSource = Str ''fileTree'',
      editorTextarea = ''let x = 1'', editorOverlay = True\<rparr>"




definition fix_bug :: task where
  "fix_bug = \<lparr>task_id = ''t1'', task_title = ''Fix bug'', task_description = Str [],
              task_priority = Str ''medium'', task_status = Str ''pending''\<rparr>"

definition add_tests :: task where
  "add_tests = \<lparr>task_id = ''t2'', task_title = ''Add tests'',
               task_description = Str ''Cover the parser'',
               task_priority = Str ''high'', task_status = Str ''completed''\<rparr>"

definition tasks_of_a :: tasks_file where
  "tasks_of_a = \<lparr>tasks = Some \<lparr>pending = [fix_bug], inProgress = [], completed = [add_tests]\<rparr>\<rparr>"

definition tasks_of_b :: tasks_file where
  "tasks_of_b = \<lparr>tasks = Some \<lparr>pending = [], inProgress = [], completed = []\<rparr>\<rparr>"

definition view_of_a :: tasks_state where
  "view_of_a = \<lparr>isVisible = True, currentFilter = ''all'', tasksData = Some tasks_of_a,
                claudeCodeRunning = False\<rparr>"

text \<open>
  Two forms in add mode: a title of a space, a no-break space and a tab, and the title
  " Fix bug ".
\<close>

definition blank_title_form :: task_form where
  "blank_title_form =
     \<lparr>form_mode = Str ''add'', form_taskId = [], title_input = [0x20, 0xA0, 0x09],
      description_input = codeUnits ''later'', priority_input = ''medium'',
      category_input = ''feature''\<rparr>"

definition fix_bug_form :: task_form where
  "fix_bug_form =
     \<lparr>form_mode = Str ''add'', form_taskId = [], title_input = codeUnits '' Fix bug '',
      description_input = [], priority_input = ''medium'', category_input = ''feature''\<rparr>"

section \<open>Properties of the application state module\<close>

lemma filter_FrameStatusCb_map [simp]:
  "filter isFrameStatusCb (map (\<lambda>cb. FrameStatusCb cb f) cbs) = map (\<lambda>cb. FrameStatusCb cb f) cbs"
  by (induction cbs) auto

lemma filter_ProjectChangeCb_map [simp]:
  "filter isProjectChangeCb (map (\<lambda>cb. ProjectChangeCb cb p q) cbs)
   = map (\<lambda>cb. ProjectChangeCb cb p q) cbs"
  by (induction cbs) auto

lemma filter_other_FrameStatusCb [simp]:
  "filter isProjectChangeCb (map (\<lambda>cb. FrameStatusCb cb f) cbs) = []"
  "filter isSetCurrentProject (map (\<lambda>cb. FrameStatusCb cb f) cbs) = []"
  "filter isIpcSend (map (\<lambda>cb. FrameStatusCb cb f) cbs) = []"
  by (induction cbs) auto

lemma filter_other_ProjectChangeCb [simp]:
  "filter isSetCurrentProject (map (\<lambda>cb. ProjectChangeCb cb p q) cbs) = []"
  "filter isIpcSend (map (\<lambda>cb. ProjectChangeCb cb p q) cbs) = []"
  "filter isFrameStatusCb (map (\<lambda>cb. ProjectChangeCb cb p q) cbs) = []"
  by (induction cbs) auto

text \<open>
  Claim C1. A classification response \<open>{projectPath, isFrame}\<close> whose path is not
  equal to the current project path leaves the whole module state as it was and performs
  no effect, so no status listener runs; a response for the current path stores the flag
  and calls every status listener with it, in registration order.
\<close>

theorem classification_response_matched:
  "(projectPath \<noteq> currentProjectPath s \<longrightarrow>
      on_IS_FRAME_PROJECT_RESULT projectPath isFrame s = (s, []))
   \<and> (projectPath = currentProjectPath s \<longrightarrow>
      isCurrentProjectFrame (fst (on_IS_FRAME_PROJECT_RESULT projectPath isFrame s)) = isFrame
      \<and> currentProjectPath (fst (on_IS_FRAME_PROJECT_RESULT projectPath isFrame s))
          = currentProjectPath s
      \<and> filter isFrameStatusCb (snd (on_IS_FRAME_PROJECT_RESULT projectPath isFrame s))
          = map (\<lambda>cb. FrameStatusCb cb isFrame) (onFrameStatusChangeCallbacks s))"
  by (simp add: on_IS_FRAME_PROJECT_RESULT_def setIsFrameProject_def)

text \<open>
  On project /a, a response for /b is dropped; a response for /a with flag false clears
  the flag and reaches listeners 3 and 4 in that order.
\<close>

theorem classification_response_matched_witness:
  "Str ''/b'' \<noteq> currentProjectPath example_project
   \<and> on_IS_FRAME_PROJECT_RESULT (Str ''/b'') False example_project = (example_project, [])
   \<and> Str ''/a'' = currentProjectPath example_project
   \<and> isCurrentProjectFrame (fst (on_IS_FRAME_PROJECT_RESULT (Str ''/a'') False example_project))
       = False
   \<and> filter isFrameStatusCb (snd (on_IS_FRAME_PROJECT_RESULT (Str ''/a'') False example_project))
       = [FrameStatusCb 3 False, FrameStatusCb 4 False]"
  using classification_response_matched [of "Str ''/b''" example_project False]
        classification_response_matched [of "Str ''/a''" example_project False]
  by (simp add: example_project_def)

text \<open>
  Claim C3 says that \<^verbatim>\<open>setProjectPath\<close> notifies the terminal of a session switch if and
  only if the path is not null. The code calls \<^verbatim>\<open>multiTerminalUI.setCurrentProject(path)\<close>
  whenever a terminal UI is registered, whatever the path: on the example project, setting
  the path to null sends the terminal a session switch keyed by null.
\<close>

theorem setProjectPath_null_switches_session:
  "filter isSetCurrentProject (snd (setProjectPath Null example_project))
   = [SetCurrentProject Null]"
  by (simp add: setProjectPath_def setIsFrameProject_def example_project_def Let_def)

text \<open>
  Claim C3, as the code has it. For every call \<^verbatim>\<open>setProjectPath(path)\<close> from any state:
  the current path becomes \<open>path\<close>; the terminal is told of the session switch, keyed by
  \<open>path\<close>, if and only if a terminal UI is registered (null path or not); if \<open>path\<close> is
  truthy (not null, not undefined, not the empty string) one classification request for
  \<open>path\<close> is sent and the managed flag keeps its value, otherwise no request is sent,
  the flag is set to false at once and the status listeners are called with false; last,
  every project-change listener is called with \<open>(path, previous)\<close> in registration
  order, \<open>previous\<close> being the path before the call. The last conjunct is the whole
  trace in program order.
\<close>

theorem setProjectPath_effects:
  "currentProjectPath (fst (setProjectPath path s)) = path
   \<and> filter isSetCurrentProject (snd (setProjectPath path s))
       = (if multiTerminalUI s then [SetCurrentProject path] else [])
   \<and> filter isIpcSend (snd (setProjectPath path s))
       = (if truthy path then [IpcSend (CHECK_IS_FRAME_PROJECT path)] else [])
   \<and> isCurrentProjectFrame (fst (setProjectPath path s))
       = (if truthy path then isCurrentProjectFrame s else False)
   \<and> filter isFrameStatusCb (snd (setProjectPath path s))
       = (if truthy path then []
          else map (\<lambda>cb. FrameStatusCb cb False) (onFrameStatusChangeCallbacks s))
   \<and> filter isProjectChangeCb (snd (setProjectPath path s))
       = map (\<lambda>cb. ProjectChangeCb cb path (currentProjectPath s)) (onProjectChangeCallbacks s)
   \<and> snd (setProjectPath path s)
       = UpdateProjectUI
         # (if multiTerminalUI s then [SetCurrentProject path] else [])
         @ (if truthy path then [IpcSend (CHECK_IS_FRAME_PROJECT path)]
            else UpdateFrameUI
                 # map (\<lambda>cb. FrameStatusCb cb False) (onFrameStatusChangeCallbacks s))
         @ map (\<lambda>cb. ProjectChangeCb cb path (currentProjectPath s)) (onProjectChangeCallbacks s)"
  by (simp add: setProjectPath_def setIsFrameProject_def)

section \<open>Properties of the file tree\<close>

lemma ids_fileItems: "map fst (fileItems anc x) = nodeIds x"
proof (induction x arbitrary: anc)
  case (FileItem i p)
  then show ?case by simp
next
  case (FolderItem i p shown cs)
  then show ?case by (simp add: map_concat comp_def cong: map_cong)
qed

lemma ids_allItems: "map fst (allItems root) = concat (map nodeIds root)"
  by (simp add: allItems_def map_concat comp_def ids_fileItems)

lemma nodeIds_setDisplay: "nodeIds (setDisplay n f x) = nodeIds x"
proof (induction x)
  case (FileItem i p)
  then show ?case by simp
next
  case (FolderItem i p shown cs)
  then show ?case by (simp add: comp_def cong: map_cong)
qed

text \<open>Keys and clicks never add or remove item elements.\<close>

lemma itemIds_updateTree: "itemIds (updateTree (setDisplay n f) t) = itemIds t"
  by (simp add: itemIds_def updateTree_def comp_def nodeIds_setDisplay split: option.splits)

lemma itemIds_click: "itemIds (fst (click item t)) = itemIds t"
  by (simp add: click_def itemIds_updateTree split: option.splits file_node.splits)

lemma itemIds_handleKeydown: "itemIds (fst (handleKeydown w k t)) = itemIds t"
  by (simp add: handleKeydown_def Let_def itemIds_updateTree itemIds_click split: option.splits)
     (simp add: itemIds_def)

lemma itemIds_tree_run: "itemIds (tree_run w evs t) = itemIds t"
proof (induction evs arbitrary: t)
  case Nil
  then show ?case by simp
next
  case (Cons e evs)
  then show ?case by (cases e) (simp_all add: itemIds_handleKeydown itemIds_click)
qed

lemma distinct_getVisibleItems: "distinct (itemIds t) \<Longrightarrow> distinct (getVisibleItems t)"
  by (auto simp: itemIds_def getVisibleItems_def distinct_map_filter ids_allItems[symmetric]
           split: option.splits)

subsection \<open>The filter of getVisibleItems and visibility in the tree\<close>

text \<open>
  The filter over the chain of enclosing containers keeps an item exactly when the descent
  through expanded folders reaches it.
\<close>

lemma filter_parentsExpanded_fileItems:
  "map fst (filter parentsExpanded (fileItems anc x))
   = (if list_all (\<lambda>shown. shown) anc then expandedBelow x else [])"
proof (induction x arbitrary: anc)
  case (FileItem i p)
  then show ?case by (simp add: parentsExpanded_def)
next
  case (FolderItem i p shown cs)
  have "concat (map (\<lambda>c. map fst (filter parentsExpanded (fileItems (shown # anc) c))) cs)
        = concat (map (\<lambda>c. if list_all (\<lambda>shown. shown) (shown # anc)
                              then expandedBelow c else []) cs)"
    using FolderItem.IH by (simp cong: map_cong)
  also have "\<dots> = (if list_all (\<lambda>shown. shown) anc \<and> shown
                     then concat (map expandedBelow cs) else [])"
    by (induction cs) auto
  finally have below:
    "concat (map (\<lambda>c. map fst (filter parentsExpanded (fileItems (shown # anc) c))) cs)
     = (if list_all (\<lambda>shown. shown) anc \<and> shown then concat (map expandedBelow cs) else [])" .
  have split:
    "map fst (filter parentsExpanded (fileItems anc (FolderItem i p shown cs)))
     = (if parentsExpanded (i, anc) then [i] else [])
       @ concat (map (\<lambda>c. map fst (filter parentsExpanded (fileItems (shown # anc) c))) cs)"
    by (simp add: filter_concat map_concat comp_def)
  have own: "parentsExpanded (i, anc) = list_all (\<lambda>shown. shown) anc"
    by (simp add: parentsExpanded_def)
  show ?case unfolding split below own by simp
qed

lemma getVisibleItems_expandedItems: "getVisibleItems t = expandedItems t"
proof (cases "fileTreeElement t")
  case None
  then show ?thesis by (simp add: getVisibleItems_def expandedItems_def)
next
  case (Some root)
  have "map fst (filter parentsExpanded (allItems root))
        = concat (map (\<lambda>x. map fst (filter parentsExpanded (fileItems [] x))) root)"
    by (simp add: allItems_def filter_concat map_concat comp_def)
  also have "\<dots> = concat (map expandedBelow root)"
    by (simp add: filter_parentsExpanded_fileItems)
  finally show ?thesis using Some by (simp add: getVisibleItems_def expandedItems_def)
qed

lemma occursIn_nodeIds: "occursIn c x = (c \<in> set (nodeIds x))"
  by (induction x) (auto simp: list_ex_iff)

lemma expandedBelow_nodeIds: "c \<in> set (expandedBelow x) \<Longrightarrow> c \<in> set (nodeIds x)"
  by (induction x) (auto split: if_splits)

lemma belowCollapsed_nodeIds: "belowCollapsed c x \<Longrightarrow> c \<in> set (nodeIds x)"
  by (induction x) (auto simp: list_ex_iff occursIn_nodeIds split: if_splits)

text \<open>
  Among siblings with distinct items, an item reached by the descent in one of them is
  below a collapsed folder in none of them.
\<close>

lemma not_belowCollapsed_list:
  assumes "distinct (concat (map nodeIds cs))"
    and "c \<in> set (concat (map expandedBelow cs))"
    and "\<And>x. x \<in> set cs \<Longrightarrow> distinct (nodeIds x) \<Longrightarrow> c \<in> set (expandedBelow x)
           \<Longrightarrow> \<not> belowCollapsed c x"
  shows "\<not> list_ex (belowCollapsed c) cs"
  using assms
proof (induction cs)
  case Nil
  then show ?case by simp
next
  case (Cons x xs)
  from Cons.prems(1) have dx: "distinct (nodeIds x)"
    and dxs: "distinct (concat (map nodeIds xs))"
    and disj: "set (nodeIds x) \<inter> set (concat (map nodeIds xs)) = {}" by auto
  show ?case
  proof (cases "c \<in> set (expandedBelow x)")
    case True
    then have "\<not> belowCollapsed c x" using Cons.prems(3) dx by simp
    moreover have "\<not> list_ex (belowCollapsed c) xs"
    proof
      assume "list_ex (belowCollapsed c) xs"
      then obtain y where "y \<in> set xs" "belowCollapsed c y" by (auto simp: list_ex_iff)
      then have "c \<in> set (concat (map nodeIds xs))" by (auto dest: belowCollapsed_nodeIds)
      moreover from True have "c \<in> set (nodeIds x)" by (rule expandedBelow_nodeIds)
      ultimately show False using disj by auto
    qed
    ultimately show ?thesis by simp
  next
    case False
    with Cons.prems(2) have in_xs: "c \<in> set (concat (map expandedBelow xs))" by simp
    then have "c \<in> set (concat (map nodeIds xs))" by (auto dest: expandedBelow_nodeIds)
    with disj have "c \<notin> set (nodeIds x)" by auto
    then have "\<not> belowCollapsed c x" by (auto dest: belowCollapsed_nodeIds)
    moreover have "\<not> list_ex (belowCollapsed c) xs"
      using Cons.IH[OF dxs in_xs] Cons.prems(3) by simp
    ultimately show ?thesis by simp
  qed
qed

lemma expandedBelow_not_belowCollapsed:
  "distinct (nodeIds x) \<Longrightarrow> c \<in> set (expandedBelow x) \<Longrightarrow> \<not> belowCollapsed c x"
proof (induction x)
  case (FileItem i p)
  then show ?case by simp
next
  case (FolderItem i p shown cs)
  from FolderItem.prems(1) have inot: "i \<notin> set (concat (map nodeIds cs))"
    and dcs: "distinct (concat (map nodeIds cs))" by auto
  show ?case
  proof (cases "c = i")
    case True
    with inot have "\<not> list_ex (occursIn c) cs" by (auto simp: list_ex_iff occursIn_nodeIds)
    moreover from True inot have "\<not> list_ex (belowCollapsed c) cs"
      by (auto simp: list_ex_iff dest: belowCollapsed_nodeIds)
    ultimately show ?thesis by simp
  next
    case False
    with FolderItem.prems(2) have sh: "shown"
      and inc: "c \<in> set (concat (map expandedBelow cs))"
      by (auto split: if_splits)
    have "\<not> list_ex (belowCollapsed c) cs"
      using dcs inc FolderItem.IH by (rule not_belowCollapsed_list)
    with sh show ?thesis by simp
  qed
qed

lemma expanded_not_collapsed:
  assumes "distinct (itemIds t)" "c \<in> set (expandedItems t)"
  shows "\<not> ancestorCollapsed t c"
proof (cases "fileTreeElement t")
  case None
  then show ?thesis by (simp add: ancestorCollapsed_def)
next
  case (Some root)
  with assms have "distinct (concat (map nodeIds root))"
    "c \<in> set (concat (map expandedBelow root))"
    by (simp_all add: itemIds_def expandedItems_def)
  then have "\<not> list_ex (belowCollapsed c) root"
    using expandedBelow_not_belowCollapsed by (rule not_belowCollapsed_list)
  with Some show ?thesis by (simp add: ancestorCollapsed_def)
qed

text \<open>Conversely, an item of the tree with no collapsed ancestor is reached by the descent.\<close>

lemma not_belowCollapsed_expandedBelow:
  "c \<in> set (nodeIds x) \<Longrightarrow> \<not> belowCollapsed c x \<Longrightarrow> c \<in> set (expandedBelow x)"
  by (induction x) (auto simp: list_ex_iff occursIn_nodeIds split: if_splits)

lemma not_collapsed_expanded:
  "c \<in> set (itemIds t) \<Longrightarrow> \<not> ancestorCollapsed t c \<Longrightarrow> c \<in> set (expandedItems t)"
  by (auto simp: itemIds_def ancestorCollapsed_def expandedItems_def list_ex_iff
           split: option.splits dest: not_belowCollapsed_expandedBelow)

subsection \<open>indexOf and index reads\<close>

lemma indexOf_bounds: "- 1 \<le> indexOf xs x \<and> indexOf xs x < int (length xs)"
  by (induction xs) (auto simp: Let_def)

lemma indexOf_absent: "x \<notin> set xs \<Longrightarrow> indexOf xs x = - 1"
  by (induction xs) (auto simp: Let_def)

lemma indexOf_nth: "distinct xs \<Longrightarrow> i < length xs \<Longrightarrow> indexOf xs (xs ! i) = int i"
proof (induction xs arbitrary: i)
  case Nil
  then show ?case by simp
next
  case (Cons y ys)
  show ?case
  proof (cases i)
    case 0
    then show ?thesis by simp
  next
    case (Suc j)
    with Cons.prems have "j < length ys" "ys ! j \<noteq> y" "distinct ys" by auto
    with Cons.IH[of j] Suc show ?thesis by (simp add: Let_def)
  qed
qed

lemma itemAt_Some: "itemAt xs i = Some x \<Longrightarrow> x \<in> set xs"
  by (auto simp: itemAt_def split: if_splits)

lemma nat_pred_int: "nat (int n - 1) = n - 1"
  by arith

lemma itemAt_next:
  assumes "i < length xs"
  shows "itemAt xs (if int i < int (length xs) - 1 then int i + 1 else 0)
         = Some (xs ! ((i + 1) mod length xs))"
proof (cases "i + 1 < length xs")
  case True
  then have "nat (int i + 1) = i + 1" by arith
  with True show ?thesis by (simp add: itemAt_def)
next
  case False
  with assms have "i + 1 = length xs" by simp
  then have "(i + 1) mod length xs = 0" "\<not> int i < int (length xs) - 1" "0 < length xs"
    by auto
  then show ?thesis by (simp add: itemAt_def)
qed

lemma itemAt_previous:
  assumes "i < length xs"
  shows "itemAt xs (if int i > 0 then int i - 1 else int (length xs) - 1)
         = Some (xs ! ((i + length xs - 1) mod length xs))"
proof (cases i)
  case 0
  with assms have "(i + length xs - 1) mod length xs = length xs - 1" by simp
  with 0 assms show ?thesis by (simp add: itemAt_def nat_pred_int)
next
  case (Suc j)
  with assms have "(i + length xs - 1) mod length xs = j" by simp
  moreover have "nat (int i - 1) = j" using Suc by simp
  ultimately show ?thesis using Suc assms by (simp add: itemAt_def)
qed

subsection \<open>The arrow keys\<close>

lemma arrow_tree_unchanged:
  "k = ArrowDown \<or> k = ArrowUp \<Longrightarrow>
   fileTreeElement (fst (handleKeydown w k t)) = fileTreeElement t"
  by (auto simp: handleKeydown_def Let_def)

lemma arrow_visible_unchanged:
  "k = ArrowDown \<or> k = ArrowUp \<Longrightarrow>
   getVisibleItems (fst (handleKeydown w k t)) = getVisibleItems t"
  by (simp add: getVisibleItems_def arrow_tree_unchanged)

lemma arrow_collapsed_unchanged:
  "k = ArrowDown \<or> k = ArrowUp \<Longrightarrow>
   ancestorCollapsed (fst (handleKeydown w k t)) = ancestorCollapsed t"
  by (simp add: ancestorCollapsed_def arrow_tree_unchanged fun_eq_iff)

lemma arrow_focus:
  "focusedItem (fst (handleKeydown w ArrowDown t)) =
     itemAt (getVisibleItems t)
       (let ci = (case focusedItem t of None \<Rightarrow> - 1 | Some f \<Rightarrow> indexOf (getVisibleItems t) f)
        in if ci < int (length (getVisibleItems t)) - 1 then ci + 1 else 0)"
  "focusedItem (fst (handleKeydown w ArrowUp t)) =
     itemAt (getVisibleItems t)
       (let ci = (case focusedItem t of None \<Rightarrow> - 1 | Some f \<Rightarrow> indexOf (getVisibleItems t) f)
        in if ci > 0 then ci - 1 else int (length (getVisibleItems t)) - 1)"
  by (simp_all add: handleKeydown_def Let_def)

lemma arrow_lands_visible:
  "k = ArrowDown \<or> k = ArrowUp \<Longrightarrow> focusedItem (fst (handleKeydown w k t)) = Some c
     \<Longrightarrow> c \<in> set (getVisibleItems t)"
  by (auto simp: arrow_focus dest: itemAt_Some)

lemma arrow_down_next:
  assumes "distinct xs" "i < length xs" "focusedItem t = Some (xs ! i)" "xs = getVisibleItems t"
  shows "focusedItem (fst (handleKeydown w ArrowDown t)) = Some (xs ! ((i + 1) mod length xs))"
proof -
  have "indexOf xs (xs ! i) = int i" using assms by (simp add: indexOf_nth)
  with assms(3,4) have "focusedItem (fst (handleKeydown w ArrowDown t))
      = itemAt xs (if int i < int (length xs) - 1 then int i + 1 else 0)"
    by (simp add: arrow_focus(1))
  with assms(2) show ?thesis by (simp only: itemAt_next)
qed

lemma arrow_up_previous:
  assumes "distinct xs" "i < length xs" "focusedItem t = Some (xs ! i)" "xs = getVisibleItems t"
  shows "focusedItem (fst (handleKeydown w ArrowUp t))
         = Some (xs ! ((i + length xs - 1) mod length xs))"
proof -
  have "indexOf xs (xs ! i) = int i" using assms by (simp add: indexOf_nth)
  with assms(3,4) have "focusedItem (fst (handleKeydown w ArrowUp t))
      = itemAt xs (if int i > 0 then int i - 1 else int (length xs) - 1)"
    by (simp add: arrow_focus(2))
  with assms(2) show ?thesis by (simp only: itemAt_previous)
qed

text \<open>
  When the cursor is unset, or on an item that a mouse click on an ancestor has hidden,
  \<^verbatim>\<open>indexOf\<close> gives -1: ArrowDown goes to the first visible item and ArrowUp to the
  last.
\<close>

lemma arrow_from_outside:
  assumes "focusedItem t = None \<or> (\<exists>f. focusedItem t = Some f \<and> f \<notin> set (getVisibleItems t))"
    and "getVisibleItems t \<noteq> []"
  shows "focusedItem (fst (handleKeydown w ArrowDown t)) = Some (hd (getVisibleItems t))"
    and "focusedItem (fst (handleKeydown w ArrowUp t)) = Some (last (getVisibleItems t))"
proof -
  have ci: "(case focusedItem t of None \<Rightarrow> - 1 | Some f \<Rightarrow> indexOf (getVisibleItems t) f) = - 1"
    using assms(1) by (auto simp: indexOf_absent)
  from assms(2) have n: "0 < length (getVisibleItems t)" by simp
  show "focusedItem (fst (handleKeydown w ArrowDown t)) = Some (hd (getVisibleItems t))"
    using n by (simp add: arrow_focus(1) ci itemAt_def hd_conv_nth)
  show "focusedItem (fst (handleKeydown w ArrowUp t)) = Some (last (getVisibleItems t))"
    using n assms(2) by (simp add: arrow_focus(2) ci itemAt_def last_conv_nth nat_pred_int)
qed

text \<open>
  Claim C8. Take a rendered tree (its item elements are distinct) and any history of
  keys and mouse clicks, so any pattern of expanded and collapsed folders, and let
  \<open>items\<close> be the list of the items that are visible in the tree then: those reached
  through expanded folders only. With the cursor on the \<open>i\<close>-th of them, ArrowDown
  moves it to item \<open>(i + 1) mod n\<close> and ArrowUp to item \<open>(i + n - 1) mod n\<close> of that
  list, so both wrap around. And whatever the cursor was, after ArrowDown or ArrowUp it
  is on an item of that list and never on an item that lies below a collapsed folder.
\<close>

theorem arrow_keys_move_within_visible:
  assumes "distinct (itemIds t0)" and "t = tree_run w evs t0" and "items = expandedItems t"
  shows "(\<forall>i. i < length items \<and> focusedItem t = Some (items ! i) \<longrightarrow>
            focusedItem (fst (handleKeydown w ArrowDown t))
              = Some (items ! ((i + 1) mod length items))
            \<and> focusedItem (fst (handleKeydown w ArrowUp t))
                = Some (items ! ((i + length items - 1) mod length items)))
       \<and> (\<forall>k c. (k = ArrowDown \<or> k = ArrowUp)
                 \<and> focusedItem (fst (handleKeydown w k t)) = Some c \<longrightarrow>
            c \<in> set (expandedItems (fst (handleKeydown w k t)))
            \<and> \<not> ancestorCollapsed (fst (handleKeydown w k t)) c)"
proof -
  from assms have d: "distinct (itemIds t)" by (simp add: itemIds_tree_run)
  from assms(3) have items: "items = getVisibleItems t"
    by (simp add: getVisibleItems_expandedItems)
  from d have dv: "distinct items" using items by (simp add: distinct_getVisibleItems)
  have a: "\<forall>i. i < length items \<and> focusedItem t = Some (items ! i) \<longrightarrow>
            focusedItem (fst (handleKeydown w ArrowDown t))
              = Some (items ! ((i + 1) mod length items))
            \<and> focusedItem (fst (handleKeydown w ArrowUp t))
                = Some (items ! ((i + length items - 1) mod length items))"
    using dv items arrow_down_next arrow_up_previous by blast
  have b: "c \<in> set (expandedItems (fst (handleKeydown w k t)))
            \<and> \<not> ancestorCollapsed (fst (handleKeydown w k t)) c"
    if "k = ArrowDown \<or> k = ArrowUp" "focusedItem (fst (handleKeydown w k t)) = Some c" for k c
  proof -
    from that have "c \<in> set (getVisibleItems t)" by (rule arrow_lands_visible)
    then have c: "c \<in> set (expandedItems t)" by (simp add: getVisibleItems_expandedItems)
    from that(1) have "expandedItems (fst (handleKeydown w k t)) = expandedItems t"
      using arrow_visible_unchanged [of k w t] by (simp add: getVisibleItems_expandedItems)
    with d c that(1) show ?thesis
      by (simp add: arrow_collapsed_unchanged expanded_not_collapsed)
  qed
  from a b show ?thesis by blast
qed

text \<open>
  After the example history lib is collapsed again with the cursor on it: y.js lies below
  a collapsed folder, the visible items are src, x.js, lib and README.md, ArrowDown goes
  from lib past y.js to README.md and ArrowUp goes to x.js.
\<close>

lemma example_run:
  "tree_run example_window example_history example_tree =
     \<lparr>fileTreeElement =
        Some [FolderItem 1 ''/a/src'' True
                [FileItem 2 ''/a/src/x.js'',
                 FolderItem 3 ''/a/src/lib'' False [FileItem 4 ''/a/src/lib/y.js'']],
              FileItem 5 ''/a/README.md''],
      onFileClickCallback = True, focusedItem = Some 3, keyboardSetup = True\<rparr>"
  by (simp add: example_history_def example_tree_def handleKeydown_def getVisibleItems_def
        allItems_def parentsExpanded_def itemAt_def click_def updateTree_def Let_def)

theorem arrow_keys_move_within_visible_witness:
  "distinct (itemIds example_tree)
   \<and> expandedItems (tree_run example_window example_history example_tree) = [1, 2, 3, 5]
   \<and> ancestorCollapsed (tree_run example_window example_history example_tree) 4
   \<and> (2::nat) < length [1, 2, 3, 5::nat]
   \<and> focusedItem (tree_run example_window example_history example_tree)
       = Some ([1, 2, 3, 5] ! 2)
   \<and> focusedItem (fst (handleKeydown example_window ArrowDown
                        (tree_run example_window example_history example_tree))) = Some 5
   \<and> focusedItem (fst (handleKeydown example_window ArrowUp
                        (tree_run example_window example_history example_tree))) = Some 2
   \<and> \<not> ancestorCollapsed (fst (handleKeydown example_window ArrowDown
                        (tree_run example_window example_history example_tree))) 5"
proof -
  have d: "distinct (itemIds example_tree)"
    by (simp add: itemIds_def example_tree_def)
  have v: "expandedItems (tree_run example_window example_history example_tree)
           = [1, 2, 3, 5]"
    by (simp add: example_run expandedItems_def)
  have h: "ancestorCollapsed (tree_run example_window example_history example_tree) 4"
    by (simp add: example_run ancestorCollapsed_def)
  have f: "focusedItem (tree_run example_window example_history example_tree)
           = Some ([1, 2, 3, 5] ! 2)"
    by (simp add: example_run)
  note th = arrow_keys_move_within_visible [OF d refl v [symmetric]]
  have down: "focusedItem (fst (handleKeydown example_window ArrowDown
                (tree_run example_window example_history example_tree))) = Some 5"
    and up: "focusedItem (fst (handleKeydown example_window ArrowUp
                (tree_run example_window example_history example_tree))) = Some 2"
    using th [THEN conjunct1, rule_format, of 2] f by simp_all
  have "\<not> ancestorCollapsed (fst (handleKeydown example_window ArrowDown
                (tree_run example_window example_history example_tree))) 5"
    using th [THEN conjunct2, rule_format, of ArrowDown 5] down by simp
  with d v h f down up show ?thesis by simp
qed

section \<open>Properties of the editor\<close>

text \<open>
  Claim C6. Closing a modified editor and declining the confirmation returns the editor
  state and the file tree state exactly as they were: the open file, the snapshot, the
  buffer, the modified flag, the recorded origin and the visible overlay. The only effect
  is the confirmation dialog; no focus call is made.
\<close>

theorem closeEditor_declined:
  "isModified s \<Longrightarrow>
   closeEditor w False (s, t) = ((s, t), [Confirm ''You have unsaved changes. Close anyway?''])"
  by (simp add: closeEditor_def)

theorem closeEditor_declined_witness:
  "isModified example_editor
   \<and> closeEditor example_window False (example_editor, example_tree)
       = ((example_editor, example_tree), [Confirm ''You have unsaved changes. Close anyway?''])"
  using closeEditor_declined [of example_editor example_window example_tree]
  by (simp add: example_editor_def)

text \<open>With no visible item the file tree's \<^verbatim>\<open>focus\<close> does nothing.\<close>

lemma focus_nothing_visible: "getVisibleItems t = [] \<Longrightarrow> focus t = (t, [])"
  by (simp add: focus_def split: option.splits)

text \<open>
  Claim C7. Let a close proceed (the buffer is unmodified or the user confirms), with
  the file tree's and the terminal's focus functions installed on \<^verbatim>\<open>window\<close>. If the
  editor was opened from the file tree, the close runs the file tree's own \<^verbatim>\<open>focus\<close>
  and nothing else takes focus; that \<^verbatim>\<open>focus\<close>, on a tree with a visible item, puts
  the cursor on the remembered item when the tree still contains it and on the first
  visible item otherwise. For every other origin the file tree is left alone and the
  terminal's focus function is called. Either way the overlay is closed.
\<close>

theorem closeEditor_restores_focus:
  assumes "\<not> isModified s \<or> answer" and "fileTreeFocus w" and "terminalFocus w"
  shows "(openedFromSource s = Str ''fileTree'' \<longrightarrow>
            snd (fst (closeEditor w answer (s, t))) = fst (focus t)
            \<and> snd (closeEditor w answer (s, t))
                = (if isModified s then [Confirm ''You have unsaved changes. Close anyway?'']
                   else [])
                  @ snd (focus t)
            \<and> (\<forall>root first rest.
                  fileTreeElement t = Some root \<and> getVisibleItems t = first # rest \<longrightarrow>
                  focus t
                  = (let target = (if focusedItem t \<noteq> None \<and> contains root (the (focusedItem t))
                                   then the (focusedItem t) else first)
                     in (t\<lparr>focusedItem := Some target, keyboardSetup := True\<rparr>,
                         [DomFocus target]))))
       \<and> (openedFromSource s \<noteq> Str ''fileTree'' \<longrightarrow>
            snd (fst (closeEditor w answer (s, t))) = t
            \<and> snd (closeEditor w answer (s, t))
                = (if isModified s then [Confirm ''You have unsaved changes. Close anyway?'']
                   else [])
                  @ [TerminalFocus])
       \<and> \<not> editorOverlay (fst (fst (closeEditor w answer (s, t))))"
  using assms
  by (auto simp: closeEditor_def focus_def Let_def split: prod.splits option.splits)

text \<open>
  The example editor is modified and was opened from the file tree with the cursor on
  x.js: a confirmed close focuses x.js again. The same editor opened from the terminal gives the terminal
  the focus.
\<close>

theorem closeEditor_restores_focus_witness:
  "isModified example_editor
   \<and> fileTreeFocus example_window \<and> terminalFocus example_window
   \<and> openedFromSource example_editor = Str ''fileTree''
   \<and> getVisibleItems example_tree = [1, 2, 3, 5]
   \<and> snd (closeEditor example_window True (example_editor, example_tree))
        = [Confirm ''You have unsaved changes. Close anyway?'', DomFocus 2]
   \<and> openedFromSource (example_editor\<lparr>openedFromSource := Str ''terminal''\<rparr>) \<noteq> Str ''fileTree''
   \<and> snd (closeEditor example_window True
             (example_editor\<lparr>openedFromSource := Str ''terminal''\<rparr>, example_tree))
        = [Confirm ''You have unsaved changes. Close anyway?'', TerminalFocus]"
  using closeEditor_restores_focus [of example_editor True example_window example_tree]
        closeEditor_restores_focus
          [of "example_editor\<lparr>openedFromSource := Str ''terminal''\<rparr>" True
              example_window example_tree]
  by (simp add: example_editor_def example_window_def example_tree_def focus_def
        getVisibleItems_def allItems_def parentsExpanded_def contains_def)

subsection \<open>The modified flag\<close>


lemma normalizeNewlines_no_CR: "CHR 0x0D \<notin> set (normalizeNewlines cs)"
  by (induction cs rule: normalizeNewlines.induct) auto








text \<open>
  Claim C10. With a file open, \<^verbatim>\<open>saveFile\<close> sends the buffer as it is at that moment.
  If the user then edits the buffer to \<open>edited\<close> and the successful save response
  arrives after that, the snapshot becomes \<open>edited\<close>, the text in the buffer at arrival,
  not the text that was written, and the flag is cleared: the edit counts as saved
  although it never was sent.
\<close>

theorem save_response_snapshots_current_buffer:
  assumes "truthy (currentEditingFile s)"
  shows "snd (saveFile s) = [IpcSend (WRITE_FILE (currentEditingFile s) (editorTextarea s))]
       \<and> originalContent (fst (on_FILE_SAVED True err (fst (input edited (fst (saveFile s))))))
           = edited
       \<and> editorTextarea (fst (on_FILE_SAVED True err (fst (input edited (fst (saveFile s))))))
           = edited
       \<and> \<not> isModified (fst (on_FILE_SAVED True err (fst (input edited (fst (saveFile s))))))"
  using assms
  by (simp add: saveFile_def input_def checkModified_def on_FILE_SAVED_def Let_def)

theorem save_response_snapshots_current_buffer_witness:
  "truthy (currentEditingFile example_editor)
   \<and> snd (saveFile example_editor) = [IpcSend (WRITE_FILE (Str ''/a/x.js'') ''let x = 1'')]
   \<and> originalContent
       (fst (on_FILE_SAVED True [] (fst (input ''let x = 2'' (fst (saveFile example_editor))))))
       = ''let x = 2''
   \<and> \<not> isModified
       (fst (on_FILE_SAVED True [] (fst (input ''let x = 2'' (fst (saveFile example_editor))))))"
  using save_response_snapshots_current_buffer [of example_editor "[]" "''let x = 2''"]
  by (simp add: example_editor_def)

section \<open>Properties of the tasks panel\<close>

text \<open>A push that carries tasks replaces the view, whatever path it is keyed to.\<close>

lemma on_TASKS_DATA_any_path:
  "on_TASKS_DATA ps projectPath (Some d) s = (s\<lparr>tasksData := Some d\<rparr>, [Render])"
  by (simp add: on_TASKS_DATA_def)

text \<open>
  Claim C2 says that a task push for a project that is not the active one is discarded.
  The \<^verbatim>\<open>TASKS_DATA\<close> listener binds \<^verbatim>\<open>projectPath\<close> and never looks at it: with
  project /a active and its tasks in the view, a push for /b replaces the view by the
  tasks of /b.
\<close>

theorem stale_tasks_push_replaces_view:
  "currentProjectPath example_project = Str ''/a''
   \<and> tasksData view_of_a = Some tasks_of_a
   \<and> on_TASKS_DATA example_project (Str ''/b'') (Some tasks_of_b) view_of_a
       = (view_of_a\<lparr>tasksData := Some tasks_of_b\<rparr>, [Render])"
  by (simp add: on_TASKS_DATA_def example_project_def view_of_a_def)

text \<open>
  Claim C5. With a project active, the task found in the filtered view under the given
  id and the terminal's send function installed, the action start sends one status update
  to in_progress and exactly one terminal command: "Work on this task: " and the title,
  then ". " and the description when the description is a non-empty string, then
  " (High priority)" when the priority is high. The actions complete, pause and reopen
  send one status update to completed, pending and pending, and no terminal command. The
  task's own status appears nowhere on the right-hand sides: no action is refused because
  of it. The view is returned unchanged.
\<close>

theorem handleTaskAction_requests:
  assumes "truthy (getProjectPath ps)"
    and "find (\<lambda>t. task_id t = taskId) (getFilteredTasks s) = Some t"
    and "terminalSendCommand w"
  shows "handleTaskAction ps w answer taskId ''start'' s
         = (s, [TerminalSendCommand
                  (''Work on this task: '' @ task_title t
                   @ (if truthy (task_description t) then ''. '' @ toString (task_description t)
                      else [])
                   @ (if task_priority t = Str ''high'' then '' (High priority)'' else [])),
                IpcSend (UPDATE_TASK (getProjectPath ps) taskId (StatusUpdate ''in_progress'')),
                Toast ''Task sent to Claude'' ''info''])
       \<and> handleTaskAction ps w answer taskId ''complete'' s
         = (s, [IpcSend (UPDATE_TASK (getProjectPath ps) taskId (StatusUpdate ''completed'')),
                Toast ''Task completed'' ''success''])
       \<and> handleTaskAction ps w answer taskId ''pause'' s
         = (s, [IpcSend (UPDATE_TASK (getProjectPath ps) taskId (StatusUpdate ''pending'')),
                Toast ''Task paused'' ''info''])
       \<and> handleTaskAction ps w answer taskId ''reopen'' s
         = (s, [IpcSend (UPDATE_TASK (getProjectPath ps) taskId (StatusUpdate ''pending'')),
                Toast ''Task reopened'' ''info''])"
  using assms
  by (simp add: handleTaskAction_def sendTaskToClaude_def statusRequest_def Let_def)

text \<open>
  Starting the pending task "Fix bug" (no description, medium priority), starting the
  high-priority task "Add tests" from the completed list, and pausing that completed task.
\<close>

theorem handleTaskAction_requests_witness:
  "truthy (getProjectPath example_project)
   \<and> find (\<lambda>t. task_id t = ''t1'') (getFilteredTasks view_of_a) = Some fix_bug
   \<and> find (\<lambda>t. task_id t = ''t2'') (getFilteredTasks view_of_a) = Some add_tests
   \<and> terminalSendCommand example_window
   \<and> snd (handleTaskAction example_project example_window False ''t1'' ''start'' view_of_a)
       = [TerminalSendCommand ''Work on this task: Fix bug'',
          IpcSend (UPDATE_TASK (Str ''/a'') ''t1'' (StatusUpdate ''in_progress'')),
          Toast ''Task sent to Claude'' ''info'']
   \<and> snd (handleTaskAction example_project example_window False ''t2'' ''start'' view_of_a)
       = [TerminalSendCommand ''Work on this task: Add tests. Cover the parser (High priority)'',
          IpcSend (UPDATE_TASK (Str ''/a'') ''t2'' (StatusUpdate ''in_progress'')),
          Toast ''Task sent to Claude'' ''info'']
   \<and> snd (handleTaskAction example_project example_window False ''t2'' ''pause'' view_of_a)
       = [IpcSend (UPDATE_TASK (Str ''/a'') ''t2'' (StatusUpdate ''pending'')),
          Toast ''Task paused'' ''info'']"
  using handleTaskAction_requests
          [of example_project "''t1''" view_of_a fix_bug example_window False]
        handleTaskAction_requests
          [of example_project "''t2''" view_of_a add_tests example_window False]
  by (simp add: example_project_def getProjectPath_def view_of_a_def tasks_of_a_def fix_bug_def
        add_tests_def example_window_def getFilteredTasks_def)

text \<open>
  Claim C9 says that every draft with an empty title has its error surfaced at once and
  every draft with a title results in one create request. With no project active
  \<^verbatim>\<open>handleTaskFormSubmit\<close> returns before it looks at the form: the blank title raises
  no alert and the title " Fix bug " sends no request.
\<close>

theorem submit_without_project_is_silent:
  "\<not> truthy (getProjectPath initial_project_state)
   \<and> trim (title_input blank_title_form) = []
   \<and> handleTaskFormSubmit initial_project_state blank_title_form view_of_a = (view_of_a, [])
   \<and> trim (title_input fix_bug_form) \<noteq> []
   \<and> handleTaskFormSubmit initial_project_state fix_bug_form view_of_a = (view_of_a, [])"
  by (simp add: handleTaskFormSubmit_def getProjectPath_def initial_project_state_def
        blank_title_form_def fix_bug_form_def trim_def isWhiteSpace_def codeUnits_def)

text \<open>
  Claim C9, as the code has it. With no project active a submit does nothing, whatever
  the title: no message, no alert, the panel state as it was. With a project active, a
  form whose title is empty after trimming (only white space and line terminators, no-break
  space and the other Unicode spaces included) ends in the alert "Task title is required"
  and nothing else: no message is sent and the panel state is as it was. With a project
  active, the form in add mode and a title that is not empty after trimming, exactly one
  message is sent: the create request with the trimmed title; the panel state is as it
  was.
\<close>

theorem handleTaskFormSubmit_requires_project_and_title:
  "(\<not> truthy (getProjectPath ps) \<longrightarrow> handleTaskFormSubmit ps form s = (s, []))
   \<and> (truthy (getProjectPath ps) \<and> trim (title_input form) = [] \<longrightarrow>
      handleTaskFormSubmit ps form s = (s, [Alert ''Task title is required'']))
   \<and> (truthy (getProjectPath ps) \<and> form_mode form = Str ''add''
        \<and> trim (title_input form) \<noteq> [] \<longrightarrow>
      fst (handleTaskFormSubmit ps form s) = s
      \<and> filter isIpcSend (snd (handleTaskFormSubmit ps form s))
          = [IpcSend (ADD_TASK (getProjectPath ps)
                        \<lparr>td_title = trim (title_input form),
                         td_description = trim (description_input form),
                         td_priority = priority_input form,
                         td_category = category_input form\<rparr>)])"
  by (simp add: handleTaskFormSubmit_def Let_def)

text \<open>
  With no project the title " Fix bug " sends nothing. On project /a the title made of a
  space, a no-break space and a tab is refused, and " Fix bug " creates the task
  "Fix bug".
\<close>

theorem handleTaskFormSubmit_requires_project_and_title_witness:
  "\<not> truthy (getProjectPath initial_project_state)
   \<and> handleTaskFormSubmit initial_project_state fix_bug_form view_of_a = (view_of_a, [])
   \<and> truthy (getProjectPath example_project)
   \<and> trim (title_input blank_title_form) = []
   \<and> handleTaskFormSubmit example_project blank_title_form view_of_a
       = (view_of_a, [Alert ''Task title is required''])
   \<and> form_mode fix_bug_form = Str ''add''
   \<and> trim (title_input fix_bug_form) = codeUnits ''Fix bug''
   \<and> filter isIpcSend (snd (handleTaskFormSubmit example_project fix_bug_form view_of_a))
       = [IpcSend (ADD_TASK (Str ''/a'')
                    \<lparr>td_title = codeUnits ''Fix bug'', td_description = [],
                     td_priority = ''medium'', td_category = ''feature''\<rparr>)]"
  using handleTaskFormSubmit_requires_project_and_title
          [of initial_project_state fix_bug_form view_of_a]
        handleTaskFormSubmit_requires_project_and_title
          [of example_project blank_title_form view_of_a]
        handleTaskFormSubmit_requires_project_and_title
          [of example_project fix_bug_form view_of_a]
  by (simp add: example_project_def initial_project_state_def getProjectPath_def
        blank_title_form_def fix_bug_form_def trim_def isWhiteSpace_def codeUnits_def)

end
